theory Spec2Isabelle
  imports Main "HOL-Library.Sublist"
begin

section \<open>The install invoker of \<^verbatim>\<open>libs/api/tauri.ts\<close>\<close>

subsection \<open>Values seen by the listeners\<close>

text \<open>
  The listeners are typed \<^verbatim>\<open>string | { code: number }\<close>, and the source tests
  \<^verbatim>\<open>typeof line === 'string'\<close>, \<^verbatim>\<open>line?.code\<close> and \<^verbatim>\<open>line || ''\<close>, so a payload
  is a string, an object with an optional exit code, \<^verbatim>\<open>null\<close> or \<^verbatim>\<open>undefined\<close>.
  Exit codes are integers.
\<close>

datatype payload = PStr string | PObj "int option" | PNull | PUndefined

fun is_string :: "payload \<Rightarrow> bool" where
  "is_string (PStr s) = True"
| "is_string (PObj c) = False"
| "is_string PNull = False"
| "is_string PUndefined = False"

text \<open>\<^verbatim>\<open>line?.code\<close>: the code of an object, \<^verbatim>\<open>undefined\<close> for everything else.\<close>

fun code_of :: "payload \<Rightarrow> int option" where
  "code_of (PObj c) = c"
| "code_of (PStr s) = None"
| "code_of PNull = None"
| "code_of PUndefined = None"

text \<open>JavaScript truthiness, as \<^verbatim>\<open>line || ''\<close> reads it.\<close>

fun truthy :: "payload \<Rightarrow> bool" where
  "truthy (PStr s) = (s \<noteq> [])"
| "truthy (PObj c) = True"
| "truthy PNull = False"
| "truthy PUndefined = False"

definition or_empty :: "payload \<Rightarrow> payload" where
  "or_empty line = (if truthy line then line else PStr [])"

text \<open>\<^verbatim>\<open>s.includes(t)\<close>: \<open>t\<close> starts at some position of \<open>s\<close>.\<close>

fun str_includes :: "string \<Rightarrow> string \<Rightarrow> bool" where
  "str_includes [] t = (t = [])"
| "str_includes (c # s) t = (prefix t (c # s) \<or> str_includes s t)"

subsection \<open>Calls and the promise\<close>

text \<open>
  Every call the invoker makes on its collaborators is recorded in order:
  \<^verbatim>\<open>new Command(program, args) ... spawn()\<close>, \<^verbatim>\<open>c.kill()\<close>, \<^verbatim>\<open>resolve(c.pid)\<close>,
  \<^verbatim>\<open>reject(reason)\<close> (\<^verbatim>\<open>reject()\<close> has the reason \<^verbatim>\<open>undefined\<close>) and \<^verbatim>\<open>console.log\<close>.
\<close>

datatype effect =
    Spawn string "string list"
  | Kill
  | Resolve nat
  | Reject payload
  | ConsoleLog string "payload list"

datatype 'a promise = Pending | Fulfilled 'a | Rejected payload

record invoker =
  promise :: "nat promise"
  trace :: "effect list"

text \<open>
  A promise settles once: \<^verbatim>\<open>resolve\<close> and \<^verbatim>\<open>reject\<close> on a settled promise are
  calls that leave its state as it is.
\<close>

definition resolve :: "nat \<Rightarrow> invoker \<Rightarrow> invoker" where
  "resolve v st =
     st\<lparr>promise := (case promise st of Pending \<Rightarrow> Fulfilled v | p \<Rightarrow> p),
        trace := trace st @ [Resolve v]\<rparr>"

definition reject :: "payload \<Rightarrow> invoker \<Rightarrow> invoker" where
  "reject r st =
     st\<lparr>promise := (case promise st of Pending \<Rightarrow> Rejected r | p \<Rightarrow> p),
        trace := trace st @ [Reject r]\<rparr>"

definition kill :: "invoker \<Rightarrow> invoker" where
  "kill st = st\<lparr>trace := trace st @ [Kill]\<rparr>"

definition console_log :: "string \<Rightarrow> payload list \<Rightarrow> invoker \<Rightarrow> invoker" where
  "console_log msg args st = st\<lparr>trace := trace st @ [ConsoleLog msg args]\<rparr>"

subsection \<open>The listeners\<close>

text \<open>
  \<open>child\<close> is what \<^verbatim>\<open>await child\<close> gives: the process id of the spawned child, or
  \<open>None\<close> when the promise of \<^verbatim>\<open>spawn()\<close> is rejected; the \<^verbatim>\<open>await\<close> then throws
  inside the handler, which does nothing more.
\<close>

definition handleLineOutput :: "nat option \<Rightarrow> payload \<Rightarrow> invoker \<Rightarrow> invoker" where
  "handleLineOutput child line st =
     (case child of
        None \<Rightarrow> st
      | Some c \<Rightarrow>
          if (is_string line \<and> (case line of PStr s \<Rightarrow> str_includes s ''installed:'' | _ \<Rightarrow> False))
             \<or> (\<not> is_string line \<and> code_of line = Some 0)
          then resolve c (kill st)
          else if \<not> is_string line \<and> code_of line = Some 1
          then reject PUndefined st
          else st)"

definition on_close :: "nat option \<Rightarrow> payload \<Rightarrow> invoker \<Rightarrow> invoker" where
  "on_close child line st =
     handleLineOutput child (or_empty line) (console_log ''command closed!'' [] st)"

definition on_error :: "nat option \<Rightarrow> payload \<Rightarrow> invoker \<Rightarrow> invoker" where
  "on_error child line st =
     handleLineOutput child (or_empty line) (console_log ''command error!'' [line] st)"

text \<open>
  The events of the command, each with its payload. The listeners of an event run in the
  order of their registration: for \<^verbatim>\<open>error\<close>, \<^verbatim>\<open>reject\<close> itself (line 119) and then
  the logging listener (line 140). \<open>dispatch\<close> is one event with its listeners run to
  their end, for a child that is known.
\<close>

datatype event = Stdout payload | Stderr payload | Close payload | Error payload

fun dispatch :: "nat option \<Rightarrow> event \<Rightarrow> invoker \<Rightarrow> invoker" where
  "dispatch child (Stdout line) st = handleLineOutput child line st"
| "dispatch child (Stderr line) st = handleLineOutput child line st"
| "dispatch child (Close line) st = on_close child line st"
| "dispatch child (Error line) st = on_error child line (reject line st)"

definition spawned :: "string \<Rightarrow> invoker" where
  "spawned full_name =
     \<lparr>promise = Pending, trace = [Spawn ''tea-install'' [CHR ''+'' # full_name, ''true'']]\<rparr>"

subsection \<open>Delivery of the events\<close>

text \<open>
  The shared handler is \<^verbatim>\<open>async\<close> and starts with \<^verbatim>\<open>await child\<close>: a listener runs
  synchronously up to that point, and the rest of the handler runs once the promise of
  \<^verbatim>\<open>spawn()\<close> has settled. \<open>listeners_sync\<close> is the synchronous part of the
  listeners of an event, \<open>handled\<close> the payload with which the event then waits for
  (or enters) the shared handler.
\<close>

fun listeners_sync :: "event \<Rightarrow> invoker \<Rightarrow> invoker" where
  "listeners_sync (Stdout line) st = st"
| "listeners_sync (Stderr line) st = st"
| "listeners_sync (Close line) st = console_log ''command closed!'' [] st"
| "listeners_sync (Error line) st = console_log ''command error!'' [line] (reject line st)"

fun handled :: "event \<Rightarrow> payload" where
  "handled (Stdout line) = line"
| "handled (Stderr line) = line"
| "handled (Close line) = or_empty line"
| "handled (Error line) = or_empty line"

text \<open>
  What happens during an invocation: an event of the command is delivered, or the promise
  of \<^verbatim>\<open>spawn()\<close> settles (to the child, or rejected). Each is a task of its own, after
  which the waiting continuations run.
\<close>

datatype occurrence = Deliver event | SpawnSettles

record run =
  cur :: invoker
  child_settled :: bool
  waiting :: "payload list"

text \<open>
  Before \<^verbatim>\<open>spawn()\<close> has settled, an event runs the synchronous part of its listeners
  and its handler waits at \<^verbatim>\<open>await child\<close>. When \<^verbatim>\<open>spawn()\<close> settles, the waiting
  handlers continue in the order in which they were called. Afterwards the listeners of an
  event run to their end before the next event is delivered.
\<close>

fun occur :: "nat option \<Rightarrow> occurrence \<Rightarrow> run \<Rightarrow> run" where
  "occur child (Deliver e) r =
     (if child_settled r then r\<lparr>cur := dispatch child e (cur r)\<rparr>
      else r\<lparr>cur := listeners_sync e (cur r), waiting := waiting r @ [handled e]\<rparr>)"
| "occur child SpawnSettles r =
     (if child_settled r then r
      else r\<lparr>cur := fold (handleLineOutput child) (waiting r) (cur r),
             child_settled := True, waiting := []\<rparr>)"

definition spawned_run :: "string \<Rightarrow> run" where
  "spawned_run full_name = \<lparr>cur = spawned full_name, child_settled = False, waiting = []\<rparr>"

text \<open>
  One invocation: the command is built and spawned, then \<open>events\<close> happen one after
  the other; \<open>child\<close> is what \<^verbatim>\<open>spawn()\<close> settles to, if it does. The result holds
  the state of the returned promise and the calls made.
\<close>

definition installPackageCommand :: "string \<Rightarrow> nat option \<Rightarrow> occurrence list \<Rightarrow> invoker" where
  "installPackageCommand full_name child events =
     cur (fold (occur child) events (spawned_run full_name))"

text \<open>
  \<^verbatim>\<open>installPackage\<close> awaits the command inside \<^verbatim>\<open>try\<close>; a rejection is passed to
  \<^verbatim>\<open>console.error\<close>. The result is the state of its own promise and what was logged.
\<close>

definition await_and_catch :: "nat promise \<Rightarrow> unit promise \<times> payload list" where
  "await_and_catch p =
     (case p of
        Pending \<Rightarrow> (Pending, [])
      | Fulfilled v \<Rightarrow> (Fulfilled (), [])
      | Rejected e \<Rightarrow> (Fulfilled (), [e]))"

definition installPackage :: "string \<Rightarrow> nat option \<Rightarrow> occurrence list
    \<Rightarrow> unit promise \<times> payload list" where
  "installPackage full_name child events =
     await_and_catch (promise (installPackageCommand full_name child events))"

fun is_spawn :: "effect \<Rightarrow> bool" where
  "is_spawn (Spawn p a) = True"
| "is_spawn Kill = False"
| "is_spawn (Resolve v) = False"
| "is_spawn (Reject r) = False"
| "is_spawn (ConsoleLog m a) = False"

section \<open>The request helpers\<close>

subsection \<open>Rendering numbers\<close>

definition digit_char :: "nat \<Rightarrow> char" where
  "digit_char d = ''0123456789abcdefghijklmnopqrstuvwxyz'' ! d"

text \<open>\<^verbatim>\<open>n.toString(b)\<close> of a natural number, for a radix from 2 to 36.\<close>

function to_radix :: "nat \<Rightarrow> nat \<Rightarrow> string" where
  "to_radix b n =
     (if b < 2 \<or> n < b then [digit_char n]
      else to_radix b (n div b) @ [digit_char (n mod b)])"
  by pat_completeness auto
termination
  by (relation "measure snd") auto

subsection \<open>The session and the signed headers\<close>

text \<open>
  The types \<^verbatim>\<open>Session\<close> and \<^verbatim>\<open>Developer\<close> are declared outside this file; the
  records hold the fields the source reads, each of which may be \<^verbatim>\<open>undefined\<close>.
\<close>

record developer =
  developer_id :: "string option"

record session =
  device_id :: "string option"
  key :: "string option"
  user :: "developer option"

type_synonym headers = "(string \<times> string option) list"

text \<open>An element of \<^verbatim>\<open>Array.join\<close>: \<^verbatim>\<open>undefined\<close> is rendered as the empty string.\<close>

definition js_str :: "string option \<Rightarrow> string" where
  "js_str v = (case v of None \<Rightarrow> [] | Some s \<Rightarrow> s)"

text \<open>Truthiness of an optional string: \<^verbatim>\<open>undefined\<close> and \<^verbatim>\<open>''\<close> are falsy.\<close>

definition str_truthy :: "string option \<Rightarrow> bool" where
  "str_truthy v = (case v of None \<Rightarrow> False | Some s \<Rightarrow> s \<noteq> [])"

text \<open>
  \<open>unixMs\<close> is the reading of the clock, \<open>hashSync\<close> the hash of the bcrypt library
  at this call. \<^verbatim>\<open>Math.round(unixMs / 1000)\<close> rounds a half up, and
  \<^verbatim>\<open>split('-')[0]\<close> is the text before the first \<^verbatim>\<open>-\<close>.
\<close>

definition getHeaders :: "(string \<Rightarrow> nat \<Rightarrow> string) \<Rightarrow> nat \<Rightarrow> string \<Rightarrow> session \<Rightarrow> headers" where
  "getHeaders hashSync unixMs path session =
     (let unixHexSecs = to_radix 16 ((unixMs + 500) div 1000);
          deviceId = map_option (takeWhile (\<lambda>c. c \<noteq> CHR ''-'')) (device_id session);
          preHash = concat [unixHexSecs, js_str (key session), js_str deviceId, path];
          Authorization = hashSync preHash 10
      in [(''Authorization'', Some Authorization),
          (''tea-ts'', Some (to_radix 10 unixMs)),
          (''tea-uid'', (case user session of None \<Rightarrow> None | Some u \<Rightarrow> developer_id u)),
          (''tea-gui_id'', device_id session)])"

subsection \<open>The hash of the bcrypt library\<close>

text \<open>
  Modelled from the documentation of the bcryptjs library, which is not part of the
  source: \<^verbatim>\<open>hashSync(s, rounds)\<close> with a number as second argument first generates a
  salt of 22 characters from a random source and then hashes \<open>s\<close> with it; the
  resulting string holds the version, the cost in two digits, the salt and the digest of
  31 characters. The salt drawn at a call is the argument \<open>salt\<close>; the digest
  function of the library is the parameter \<open>digest\<close>.
\<close>

definition two_digits :: "nat \<Rightarrow> string" where
  "two_digits n = (if n < 10 then CHR ''0'' # to_radix 10 n else to_radix 10 n)"

definition bcrypt_hashSync :: "(string \<Rightarrow> nat \<Rightarrow> string \<Rightarrow> string) \<Rightarrow> string \<Rightarrow> string \<Rightarrow> nat \<Rightarrow> string" where
  "bcrypt_hashSync digest salt s rounds =
     ''$2a$'' @ two_digits rounds @ ''$'' @ salt @ digest salt rounds s"

text \<open>The value of a header, \<open>None\<close> when it is absent or \<^verbatim>\<open>undefined\<close>.\<close>

definition header :: "string \<Rightarrow> headers \<Rightarrow> string option" where
  "header k hs = (case map_of hs k of None \<Rightarrow> None | Some v \<Rightarrow> v)"

subsection \<open>Paths and the GET helper\<close>

definition apiBaseUrl :: string where
  "apiBaseUrl = ''https://api.tea.xyz/v1''"

definition strip_slashes :: "string \<Rightarrow> string" where
  "strip_slashes path =
     (let p1 = (case path of [] \<Rightarrow> path | c # r \<Rightarrow> if c = CHR ''/'' then r else path)
      in if p1 \<noteq> [] \<and> last p1 = CHR ''/'' then butlast p1 else p1)"

fun join_with :: "string \<Rightarrow> string list \<Rightarrow> string" where
  "join_with sep [] = []"
| "join_with sep [p] = p"
| "join_with sep (p # q # ps) = p @ sep @ join_with sep (q # ps)"

definition join :: "string list \<Rightarrow> string" where
  "join paths = join_with ''/'' (map strip_slashes paths)"

record request =
  req_uri :: string
  req_headers :: headers
  req_query :: "(string \<times> string) list"

text \<open>
  \<^verbatim>\<open>get\<close> up to the call of the HTTP client: the request it sends. \<open>session\<close> is
  what \<^verbatim>\<open>getSession()\<close> returned, \<open>None\<close> for no session.
\<close>

definition get :: "(string \<Rightarrow> nat \<Rightarrow> string) \<Rightarrow> nat \<Rightarrow> session option \<Rightarrow> string
    \<Rightarrow> (string \<times> string) list option \<Rightarrow> request" where
  "get hashSync unixMs session path query =
     \<lparr>req_uri = join [apiBaseUrl, path],
      req_headers =
        (case session of
           None \<Rightarrow> [(''Authorization'', Some ''public '')]
         | Some s \<Rightarrow>
             if str_truthy (device_id s) \<and> user s \<noteq> None
             then getHeaders hashSync unixMs (''GET/'' @ path) s
             else [(''Authorization'', Some ''public '')]),
      req_query = (case query of None \<Rightarrow> [] | Some q \<Rightarrow> q)\<rparr>"

subsection \<open>The catalog\<close>

text \<open>
  \<^verbatim>\<open>PackageStates\<close> and \<^verbatim>\<open>Package\<close> are declared outside this file. Of the enum
  the two members the source uses are modelled; of a package the two fields it reads,
  with every other field carried in \<open>rest\<close>. A \<^verbatim>\<open>GUIPackage\<close> is a package
  extended by \<open>state\<close> and \<open>installed_version\<close>.
\<close>

datatype PackageStates = AVAILABLE | INSTALLED

record 'r package =
  full_name :: string
  version :: string
  rest :: 'r

record 'r gui_package = "'r package" +
  state :: PackageStates
  installed_version :: string

text \<open>
  \<open>packages\<close> is the answer of the catalog, \<open>installedPackages\<close> that of
  \<^verbatim>\<open>getInstalledPackages()\<close>. \<^verbatim>\<open>Array.find\<close> gives the first match.
\<close>

definition getPackages :: "'r package list \<Rightarrow> 's package list \<Rightarrow> 'r gui_package list" where
  "getPackages packages installedPackages =
     map (\<lambda>pkg.
            let found = find (\<lambda>p. full_name p = full_name pkg) installedPackages
            in \<lparr>full_name = full_name pkg, version = version pkg, rest = rest pkg,
                state = (case found of None \<Rightarrow> AVAILABLE | Some f \<Rightarrow> INSTALLED),
                installed_version = (case found of None \<Rightarrow> [] | Some f \<Rightarrow> version f)\<rparr>)
         packages"

section \<open>Notions used to state the properties\<close>

text \<open>
  The state a promise has after a sequence of calls: that of the first \<^verbatim>\<open>resolve\<close> or
  \<^verbatim>\<open>reject\<close> among them.
\<close>

fun settle :: "effect list \<Rightarrow> nat promise" where
  "settle [] = Pending"
| "settle (Resolve v # xs) = Fulfilled v"
| "settle (Reject r # xs) = Rejected r"
| "settle (Spawn p a # xs) = settle xs"
| "settle (Kill # xs) = settle xs"
| "settle (ConsoleLog m a # xs) = settle xs"


text \<open>The success condition of the line handler, and its failure condition.\<close>

fun success_line :: "payload \<Rightarrow> bool" where
  "success_line (PStr s) = str_includes s ''installed:''"
| "success_line (PObj c) = (c = Some 0)"
| "success_line PNull = False"
| "success_line PUndefined = False"

fun failure_line :: "payload \<Rightarrow> bool" where
  "failure_line (PStr s) = False"
| "failure_line (PObj c) = (c = Some 1)"
| "failure_line PNull = False"
| "failure_line PUndefined = False"

text \<open>An event is delivered whose payload meets the success condition.\<close>

fun success_occurrence :: "occurrence \<Rightarrow> bool" where
  "success_occurrence (Deliver e) = success_line (handled e)"
| "success_occurrence SpawnSettles = False"

text \<open>
  A stand-in for the hash of the bcrypt library, to evaluate \<^verbatim>\<open>getHeaders\<close> on
  examples: it shows the cost and the text that was hashed.
\<close>

definition example_hash :: "string \<Rightarrow> nat \<Rightarrow> string" where
  "example_hash preHash rounds = to_radix 10 rounds @ CHR ''$'' # preHash"

text \<open>A stand-in for the digest of the library: 31 characters cut from the hashed text.\<close>

definition example_digest :: "string \<Rightarrow> nat \<Rightarrow> string \<Rightarrow> string" where
  "example_digest salt rounds s = take 31 (s @ ''...............................'')"

section \<open>Properties of the install invoker\<close>

subsection \<open>Single calls and single listener runs\<close>

lemma trace_resolve: "trace (resolve v st) = trace st @ [Resolve v]"
  by (simp add: resolve_def)

lemma trace_reject: "trace (reject r st) = trace st @ [Reject r]"
  by (simp add: reject_def)

lemma trace_kill: "trace (kill st) = trace st @ [Kill]"
  by (simp add: kill_def)

lemma trace_console_log: "trace (console_log m a st) = trace st @ [ConsoleLog m a]"
  by (simp add: console_log_def)

lemma promise_kill: "promise (kill st) = promise st"
  by (simp add: kill_def)

lemma promise_console_log: "promise (console_log m a st) = promise st"
  by (simp add: console_log_def)

lemma promise_resolve:
  "promise (resolve v st) =
     (case promise st of Pending \<Rightarrow> Fulfilled v | Fulfilled w \<Rightarrow> Fulfilled w | Rejected r \<Rightarrow> Rejected r)"
  by (simp add: resolve_def split: promise.splits)

lemma promise_reject:
  "promise (reject r st) =
     (case promise st of Pending \<Rightarrow> Rejected r | Fulfilled w \<Rightarrow> Fulfilled w | Rejected q \<Rightarrow> Rejected q)"
  by (simp add: reject_def split: promise.splits)

lemma str_includes_sublist: "str_includes s t \<longleftrightarrow> sublist t s"
  by (induction s) (auto simp: sublist_Cons_right)

lemma handleLineOutput_Some:
  "handleLineOutput (Some c) line st =
     (if (\<exists>s. line = PStr s \<and> sublist ''installed:'' s) \<or> line = PObj (Some 0)
      then resolve c (kill st)
      else if line = PObj (Some 1) then reject PUndefined st else st)"
  by (cases line) (auto simp: handleLineOutput_def str_includes_sublist)


lemma handleLineOutput_trace_eq:
  "trace (handleLineOutput child line st) =
     trace st @ (case child of
                   None \<Rightarrow> []
                 | Some c \<Rightarrow> if success_line line then [Kill, Resolve c]
                            else if failure_line line then [Reject PUndefined] else [])"
  by (cases child; cases line)
     (simp_all add: handleLineOutput_def trace_resolve trace_reject trace_kill)

lemma handleLineOutput_promise_eq:
  "promise (handleLineOutput child line st) =
     (case promise st of
        Pending \<Rightarrow> (case child of
                     None \<Rightarrow> Pending
                   | Some c \<Rightarrow> if success_line line then Fulfilled c
                              else if failure_line line then Rejected PUndefined else Pending)
      | Fulfilled w \<Rightarrow> Fulfilled w
      | Rejected r \<Rightarrow> Rejected r)"
  by (cases child; cases line)
     (simp_all add: handleLineOutput_def promise_resolve promise_reject promise_kill
       split: promise.splits)

lemma listeners_sync_trace_eq:
  "trace (listeners_sync e st) =
     trace st @ (case e of
                   Stdout l \<Rightarrow> []
                 | Stderr l \<Rightarrow> []
                 | Close l \<Rightarrow> [ConsoleLog ''command closed!'' []]
                 | Error l \<Rightarrow> [Reject l, ConsoleLog ''command error!'' [l]])"
  by (cases e) (simp_all add: trace_console_log trace_reject)

lemma listeners_sync_promise_eq:
  "promise (listeners_sync e st) =
     (case e of
        Error l \<Rightarrow> (case promise st of Pending \<Rightarrow> Rejected l | Fulfilled w \<Rightarrow> Fulfilled w
                    | Rejected q \<Rightarrow> Rejected q)
      | _ \<Rightarrow> promise st)"
  by (cases e) (simp_all add: promise_console_log promise_reject)

text \<open>An event with its listeners run to their end: the synchronous part, then the handler.\<close>

lemma dispatch_eq:
  "dispatch child e st = handleLineOutput child (handled e) (listeners_sync e st)"
  by (cases e) (simp_all add: on_close_def on_error_def)

subsection \<open>Invariants of an invocation\<close>

text \<open>
  A property of the invoker that the handler and the synchronous part of the listeners
  keep holds throughout an invocation, however the events and the settling of
  \<^verbatim>\<open>spawn()\<close> interleave.
\<close>

lemma fold_handle_invariant:
  assumes h: "\<And>line st. P st \<Longrightarrow> P (handleLineOutput child line st)"
    and st: "P st"
  shows "P (fold (handleLineOutput child) ws st)"
  using st by (induction ws arbitrary: st) (simp_all add: h)

lemma occur_invariant:
  assumes h: "\<And>line st. P st \<Longrightarrow> P (handleLineOutput child line st)"
    and l: "\<And>e st. P st \<Longrightarrow> P (listeners_sync e st)"
    and r: "P (cur r)"
  shows "P (cur (occur child ev r))"
proof (cases ev)
  case (Deliver e)
  have "P (listeners_sync e (cur r))" using r by (rule l)
  moreover from this have "P (dispatch child e (cur r))"
    unfolding dispatch_eq by (rule h)
  ultimately show ?thesis using Deliver by simp
next
  case SpawnSettles
  have "P (fold (handleLineOutput child) (waiting r) (cur r))"
    using h r by (rule fold_handle_invariant)
  with r SpawnSettles show ?thesis by simp
qed

lemma fold_occur_invariant:
  assumes h: "\<And>line st. P st \<Longrightarrow> P (handleLineOutput child line st)"
    and l: "\<And>e st. P st \<Longrightarrow> P (listeners_sync e st)"
    and r: "P (cur r)"
  shows "P (cur (fold (occur child) evs r))"
  using r
proof (induction evs arbitrary: r)
  case Nil
  then show ?case by simp
next
  case (Cons ev evs)
  have "P (cur (occur child ev r))"
    using h l Cons.prems by (rule occur_invariant)
  then show ?case using Cons.IH by simp
qed

lemma run_invariant:
  assumes h: "\<And>line st. P st \<Longrightarrow> P (handleLineOutput child line st)"
    and l: "\<And>e st. P st \<Longrightarrow> P (listeners_sync e st)"
    and s: "P (spawned n)"
  shows "P (installPackageCommand n child evs)"
proof -
  have "P (cur (spawned_run n))" using s by (simp add: spawned_run_def)
  with h l show ?thesis
    unfolding installPackageCommand_def by (rule fold_occur_invariant)
qed

lemma installPackageCommand_append:
  "installPackageCommand n child (evs @ evs')
     = cur (fold (occur child) evs' (fold (occur child) evs (spawned_run n)))"
  by (simp add: installPackageCommand_def)


subsection \<open>The spawn\<close>

lemma spawn_first:
  "\<exists>ys. trace (installPackageCommand n child evs)
         = Spawn ''tea-install'' [CHR ''+'' # n, ''true''] # ys \<and> (\<forall>x \<in> set ys. \<not> is_spawn x)"
proof (rule run_invariant)
  show "\<exists>ys. trace (spawned n) = Spawn ''tea-install'' [CHR ''+'' # n, ''true''] # ys
      \<and> (\<forall>x \<in> set ys. \<not> is_spawn x)"
    by (simp add: spawned_def)
next
  fix line and st :: invoker
  assume "\<exists>ys. trace st = Spawn ''tea-install'' [CHR ''+'' # n, ''true''] # ys
      \<and> (\<forall>x \<in> set ys. \<not> is_spawn x)"
  then show "\<exists>ys. trace (handleLineOutput child line st)
      = Spawn ''tea-install'' [CHR ''+'' # n, ''true''] # ys \<and> (\<forall>x \<in> set ys. \<not> is_spawn x)"
    by (auto simp: handleLineOutput_trace_eq split: option.splits)
next
  fix e and st :: invoker
  assume "\<exists>ys. trace st = Spawn ''tea-install'' [CHR ''+'' # n, ''true''] # ys
      \<and> (\<forall>x \<in> set ys. \<not> is_spawn x)"
  then show "\<exists>ys. trace (listeners_sync e st)
      = Spawn ''tea-install'' [CHR ''+'' # n, ''true''] # ys \<and> (\<forall>x \<in> set ys. \<not> is_spawn x)"
    by (auto simp: listeners_sync_trace_eq split: event.splits)
qed


text \<open>
  C6. For every package name, whatever the child and the events that follow, the installer
  is spawned as \<^verbatim>\<open>tea-install\<close> with exactly the arguments \<^verbatim>\<open>["+<name>", "true"]\<close>:
  it is the first call of the invocation, and the only spawn among its calls.
\<close>

theorem spawn_arguments:
  "filter is_spawn (trace (installPackageCommand name child events))
     = [Spawn ''tea-install'' [CHR ''+'' # name, ''true'']]
   \<and> hd (trace (installPackageCommand name child events))
     = Spawn ''tea-install'' [CHR ''+'' # name, ''true'']"
proof -
  obtain ys where ys: "trace (installPackageCommand name child events)
      = Spawn ''tea-install'' [CHR ''+'' # name, ''true''] # ys" "\<forall>x \<in> set ys. \<not> is_spawn x"
    using spawn_first by blast
  have "filter is_spawn ys = []"
    using ys(2) by (simp add: filter_empty_conv)
  with ys(1) show ?thesis by simp
qed

theorem spawn_arguments_witness:
  "filter is_spawn (trace (installPackageCommand ''pantry/foo'' (Some 7)
       [SpawnSettles, Deliver (Stdout (PStr ''installed: pantry/foo''))]))
     = [Spawn ''tea-install'' [''+pantry/foo'', ''true'']]
   \<and> trace (installPackageCommand ''pantry/foo'' (Some 7)
       [SpawnSettles, Deliver (Stdout (PStr ''installed: pantry/foo''))])
     = [Spawn ''tea-install'' [''+pantry/foo'', ''true''], Kill, Resolve 7]"
  using spawn_arguments [of "''pantry/foo''" "Some 7"
      "[SpawnSettles, Deliver (Stdout (PStr ''installed: pantry/foo''))]"]
  by (simp add: installPackageCommand_def spawned_run_def spawned_def handleLineOutput_def
      trace_resolve trace_kill)

subsection \<open>The line handler\<close>

text \<open>
  C2. With a spawned child \<open>c\<close> and the promise still pending, the shared line handler
  decides by this predicate: a string that has \<^verbatim>\<open>installed:\<close> as a substring, or a
  non-string with code 0, kills the child and fulfils the promise with the child's process
  id; a non-string with code 1 rejects it; every other payload (any other string, any
  other code, no code) changes nothing, so the promise stays pending.
\<close>

theorem line_handler_predicate:
  "promise st = Pending \<Longrightarrow>
     promise (handleLineOutput (Some c) line st) =
       (if (\<exists>s. line = PStr s \<and> sublist ''installed:'' s) \<or> line = PObj (Some 0)
        then Fulfilled c
        else if line = PObj (Some 1) then Rejected PUndefined else Pending)
   \<and> trace (handleLineOutput (Some c) line st) =
       (if (\<exists>s. line = PStr s \<and> sublist ''installed:'' s) \<or> line = PObj (Some 0)
        then trace st @ [Kill, Resolve c]
        else if line = PObj (Some 1) then trace st @ [Reject PUndefined] else trace st)
   \<and> ((\<forall>s. line = PStr s \<longrightarrow> \<not> sublist ''installed:'' s) \<and> line \<noteq> PObj (Some 0)
        \<and> line \<noteq> PObj (Some 1) \<longrightarrow> handleLineOutput (Some c) line st = st)"
  by (auto simp: handleLineOutput_Some promise_resolve promise_reject promise_kill
      trace_resolve trace_reject trace_kill)

theorem line_handler_predicate_witness:
  "promise (spawned ''pantry/foo'') = Pending
   \<and> promise (handleLineOutput (Some 7) (PStr ''installed: pantry/foo'') (spawned ''pantry/foo''))
      = Fulfilled 7
   \<and> trace (handleLineOutput (Some 7) (PStr ''installed: pantry/foo'') (spawned ''pantry/foo''))
      = [Spawn ''tea-install'' [''+pantry/foo'', ''true''], Kill, Resolve 7]
   \<and> promise (handleLineOutput (Some 7) (PObj (Some 1)) (spawned ''pantry/foo''))
      = Rejected PUndefined
   \<and> handleLineOutput (Some 7) (PStr ''downloading: pkg@1.0'') (spawned ''pantry/foo'')
      = spawned ''pantry/foo''"
proof -
  have p: "promise (spawned ''pantry/foo'') = Pending"
    by (simp add: spawned_def)
  have s1: "sublist ''installed:'' ''installed: pantry/foo''"
    by (simp add: str_includes_sublist [symmetric])
  have s2: "\<not> sublist ''installed:'' ''downloading: pkg@1.0''"
    by (simp add: str_includes_sublist [symmetric])
  show ?thesis
    using line_handler_predicate [OF p, of 7 "PStr ''installed: pantry/foo''"]
      line_handler_predicate [OF p, of 7 "PObj (Some 1)"]
      line_handler_predicate [OF p, of 7 "PStr ''downloading: pkg@1.0''"]
      p s1 s2
    by (simp add: spawned_def)
qed

subsection \<open>Payloads that are falsy\<close>

text \<open>
  C8. When the \<^verbatim>\<open>close\<close> listener or the logging \<^verbatim>\<open>error\<close> listener fires with a
  falsy payload (\<^verbatim>\<open>null\<close>, \<^verbatim>\<open>undefined\<close> or the empty string), \<^verbatim>\<open>line || ''\<close> is the
  empty string, and the shared line handler, entered with it, changes nothing: the
  listener only logs, and the promise is as it was. (For an \<^verbatim>\<open>error\<close> event the other
  listener, \<^verbatim>\<open>reject\<close> itself, has run before.)
\<close>

theorem empty_payload_no_resolution:
  "\<not> truthy line \<Longrightarrow>
     or_empty line = PStr []
   \<and> handleLineOutput child (PStr []) st = st
   \<and> on_close child line st = console_log ''command closed!'' [] st
   \<and> on_error child line st = console_log ''command error!'' [line] st
   \<and> promise (on_close child line st) = promise st
   \<and> promise (on_error child line st) = promise st"
  by (cases child) (simp_all add: or_empty_def on_close_def on_error_def handleLineOutput_def
      promise_console_log)

theorem empty_payload_no_resolution_witness:
  "\<not> truthy PNull
   \<and> or_empty PNull = PStr []
   \<and> on_close (Some 7) PNull (spawned ''pantry/foo'')
      = \<lparr>promise = Pending,
         trace = [Spawn ''tea-install'' [''+pantry/foo'', ''true''], ConsoleLog ''command closed!'' []]\<rparr>
   \<and> on_error (Some 7) PNull (spawned ''pantry/foo'')
      = \<lparr>promise = Pending,
         trace = [Spawn ''tea-install'' [''+pantry/foo'', ''true''], ConsoleLog ''command error!'' [PNull]]\<rparr>"
proof -
  have f: "\<not> truthy PNull" by simp
  show ?thesis
    using empty_payload_no_resolution [OF f, of "Some 7" "spawned ''pantry/foo''"] f
    by (simp add: spawned_def console_log_def)
qed

subsection \<open>The boundary of \<^verbatim>\<open>installPackage\<close>\<close>

text \<open>
  C5. \<^verbatim>\<open>installPackage\<close> never ends rejected: whatever the outcome \<open>p\<close> of the install
  command, its own promise is not rejected; when the command settles (fulfilled or
  rejected) it is fulfilled, and a rejection of the command is logged with its reason.
  The same holds for every package name, child and sequence of events.
\<close>

theorem installPackage_never_throws:
  "(\<forall>e. fst (await_and_catch p) \<noteq> Rejected e)
   \<and> (p \<noteq> Pending \<longrightarrow> fst (await_and_catch p) = Fulfilled ())
   \<and> (\<forall>e. p = Rejected e \<longrightarrow> snd (await_and_catch p) = [e])
   \<and> (\<forall>e. fst (installPackage name child events) \<noteq> Rejected e)
   \<and> (promise (installPackageCommand name child events) \<noteq> Pending
        \<longrightarrow> fst (installPackage name child events) = Fulfilled ())
   \<and> (\<forall>e. promise (installPackageCommand name child events) = Rejected e
        \<longrightarrow> snd (installPackage name child events) = [e])"
  by (auto simp: await_and_catch_def installPackage_def split: promise.splits)

theorem installPackage_never_throws_witness:
  "promise (installPackageCommand ''pantry/bar'' (Some 7)
        [SpawnSettles, Deliver (Close (PObj (Some 1)))]) = Rejected PUndefined
   \<and> installPackage ''pantry/bar'' (Some 7)
        [SpawnSettles, Deliver (Close (PObj (Some 1)))] = (Fulfilled (), [PUndefined])
   \<and> await_and_catch (Rejected (PStr ''spawn failed'')) = (Fulfilled (), [PStr ''spawn failed''])"
proof -
  have r: "promise (installPackageCommand ''pantry/bar'' (Some 7)
        [SpawnSettles, Deliver (Close (PObj (Some 1)))]) = Rejected PUndefined"
    by (simp add: installPackageCommand_def spawned_run_def spawned_def on_close_def
        or_empty_def handleLineOutput_def console_log_def reject_def)
  show ?thesis
    using installPackage_never_throws [of "Rejected (PStr ''spawn failed'')" "''pantry/bar''" "Some 7"
        "[SpawnSettles, Deliver (Close (PObj (Some 1)))]"] r
    by (simp add: prod_eq_iff)
qed

subsection \<open>The promise during an invocation\<close>

lemma settle_append:
  "settle (xs @ ys) =
     (case settle xs of Pending \<Rightarrow> settle ys | Fulfilled v \<Rightarrow> Fulfilled v | Rejected r \<Rightarrow> Rejected r)"
  by (induction xs rule: settle.induct) simp_all

lemma run_settle:
  "promise (installPackageCommand n child evs) = settle (trace (installPackageCommand n child evs))"
proof (rule run_invariant)
  show "promise (spawned n) = settle (trace (spawned n))"
    by (simp add: spawned_def)
next
  fix line and st :: invoker
  assume "promise st = settle (trace st)"
  then show "promise (handleLineOutput child line st) = settle (trace (handleLineOutput child line st))"
    by (simp add: handleLineOutput_trace_eq handleLineOutput_promise_eq settle_append
        split: promise.splits option.splits)
next
  fix e and st :: invoker
  assume "promise st = settle (trace st)"
  then show "promise (listeners_sync e st) = settle (trace (listeners_sync e st))"
    by (simp add: listeners_sync_trace_eq listeners_sync_promise_eq settle_append
        split: promise.splits event.splits)
qed

text \<open>A settled promise keeps its state.\<close>

lemma fold_occur_settled:
  assumes "promise (cur r) = p" and "p \<noteq> Pending"
  shows "promise (cur (fold (occur child) evs r)) = p"
proof (rule fold_occur_invariant)
  show "promise (cur r) = p" by (rule assms(1))
next
  fix line and st :: invoker
  assume "promise st = p"
  then show "promise (handleLineOutput child line st) = p"
    using assms(2) by (simp add: handleLineOutput_promise_eq split: promise.splits)
next
  fix e and st :: invoker
  assume "promise st = p"
  then show "promise (listeners_sync e st) = p"
    using assms(2) by (simp add: listeners_sync_promise_eq split: promise.splits event.splits)
qed

lemma run_settled:
  assumes "promise (installPackageCommand n child evs) \<noteq> Pending"
  shows "promise (installPackageCommand n child (evs @ evs'))
     = promise (installPackageCommand n child evs)"
proof -
  have "promise (cur (fold (occur child) evs (spawned_run n)))
      = promise (installPackageCommand n child evs)"
    by (simp add: installPackageCommand_def)
  then have "promise (cur (fold (occur child) evs' (fold (occur child) evs (spawned_run n))))
      = promise (installPackageCommand n child evs)"
    using assms by (rule fold_occur_settled)
  then show ?thesis by (simp only: installPackageCommand_append)
qed






subsection \<open>Kill and resolution\<close>












subsection \<open>How often the promise settles, and how often the calls are made\<close>

text \<open>
  The \<^verbatim>\<open>kill\<close> calls made, together with the success payloads that still wait at
  \<^verbatim>\<open>await child\<close>, number as many as the success events delivered.
\<close>

lemma fold_handle_count:
  "count_list (trace (fold (handleLineOutput (Some c)) ws st)) Kill
     = count_list (trace st) Kill + length (filter success_line ws)
   \<and> count_list (trace (fold (handleLineOutput (Some c)) ws st)) (Resolve c)
     = count_list (trace st) (Resolve c) + length (filter success_line ws)"
  by (induction ws arbitrary: st) (simp_all add: handleLineOutput_trace_eq)

lemma listeners_sync_count:
  "count_list (trace (listeners_sync e st)) Kill = count_list (trace st) Kill
   \<and> count_list (trace (listeners_sync e st)) (Resolve c) = count_list (trace st) (Resolve c)"
  by (cases e) (simp_all add: trace_console_log trace_reject)

lemma occur_count:
  "count_list (trace (cur (occur (Some c) ev r))) Kill
       + length (filter success_line (waiting (occur (Some c) ev r)))
     = count_list (trace (cur r)) Kill + length (filter success_line (waiting r))
       + (if success_occurrence ev then 1 else 0)
   \<and> count_list (trace (cur (occur (Some c) ev r))) (Resolve c)
       + length (filter success_line (waiting (occur (Some c) ev r)))
     = count_list (trace (cur r)) (Resolve c) + length (filter success_line (waiting r))
       + (if success_occurrence ev then 1 else 0)"
proof (cases ev)
  case (Deliver e)
  then show ?thesis
    using listeners_sync_count [of e "cur r" c]
    by (simp add: dispatch_eq handleLineOutput_trace_eq)
next
  case SpawnSettles
  then show ?thesis
    using fold_handle_count [of c "waiting r" "cur r"] by simp
qed

lemma fold_occur_count:
  "count_list (trace (cur (fold (occur (Some c)) evs r))) Kill
       + length (filter success_line (waiting (fold (occur (Some c)) evs r)))
     = count_list (trace (cur r)) Kill + length (filter success_line (waiting r))
       + length (filter success_occurrence evs)
   \<and> count_list (trace (cur (fold (occur (Some c)) evs r))) (Resolve c)
       + length (filter success_line (waiting (fold (occur (Some c)) evs r)))
     = count_list (trace (cur r)) (Resolve c) + length (filter success_line (waiting r))
       + length (filter success_occurrence evs)"
proof (induction evs arbitrary: r)
  case Nil
  show ?case by simp
next
  case (Cons ev evs)
  show ?case
    using Cons.IH [of "occur (Some c) ev r"] occur_count [of c ev r] by simp
qed

text \<open>Once \<^verbatim>\<open>spawn()\<close> has settled no handler waits.\<close>

lemma occur_settled_waiting:
  "child_settled r \<longrightarrow> waiting r = [] \<Longrightarrow>
   (child_settled (occur child ev r) \<longrightarrow> waiting (occur child ev r) = [])
   \<and> (child_settled r \<or> ev = SpawnSettles \<longrightarrow> child_settled (occur child ev r))"
  by (cases ev) simp_all

lemma fold_occur_settled_waiting:
  "child_settled r \<longrightarrow> waiting r = [] \<Longrightarrow> child_settled r \<or> SpawnSettles \<in> set evs \<Longrightarrow>
   waiting (fold (occur child) evs r) = [] \<and> child_settled (fold (occur child) evs r)"
proof (induction evs arbitrary: r)
  case Nil
  then show ?case by simp
next
  case (Cons ev evs)
  have a: "child_settled (occur child ev r) \<longrightarrow> waiting (occur child ev r) = []"
    and b: "child_settled r \<or> ev = SpawnSettles \<longrightarrow> child_settled (occur child ev r)"
    using occur_settled_waiting [OF Cons.prems(1), of child ev] by simp_all
  have "child_settled (occur child ev r) \<or> SpawnSettles \<in> set evs"
    using b Cons.prems(2) by auto
  with a Cons.IH [of "occur child ev r"] show ?case by simp
qed

lemma run_count:
  assumes "SpawnSettles \<in> set evs"
  shows "count_list (trace (installPackageCommand n (Some c) evs)) Kill
       = length (filter success_occurrence evs)"
    and "count_list (trace (installPackageCommand n (Some c) evs)) (Resolve c)
       = length (filter success_occurrence evs)"
proof -
  have w: "waiting (fold (occur (Some c)) evs (spawned_run n)) = []"
    using fold_occur_settled_waiting [of "spawned_run n" evs "Some c"] assms
    by (simp add: spawned_run_def)
  show "count_list (trace (installPackageCommand n (Some c) evs)) Kill
       = length (filter success_occurrence evs)"
    using fold_occur_count [of c evs "spawned_run n"] w
    by (simp add: installPackageCommand_def spawned_run_def spawned_def)
  show "count_list (trace (installPackageCommand n (Some c) evs)) (Resolve c)
       = length (filter success_occurrence evs)"
    using fold_occur_count [of c evs "spawned_run n"] w
    by (simp add: installPackageCommand_def spawned_run_def spawned_def)
qed

text \<open>
  C3, as the source has it. The promise settles at most once: once it is settled nothing
  that happens later changes its state, which is that of the first \<^verbatim>\<open>resolve\<close> or
  \<^verbatim>\<open>reject\<close> call. The handler has no guard of its own: with a spawned child, once
  \<^verbatim>\<open>spawn()\<close> has settled, \<^verbatim>\<open>kill\<close> and \<^verbatim>\<open>resolve\<close> have been called once for
  every delivered event with a success payload, also after the first.
\<close>

theorem promise_settles_once:
  "(promise (installPackageCommand name child evs) \<noteq> Pending \<longrightarrow>
      promise (installPackageCommand name child (evs @ evs'))
        = promise (installPackageCommand name child evs))
   \<and> promise (installPackageCommand name child evs)
        = settle (trace (installPackageCommand name child evs))
   \<and> (SpawnSettles \<in> set evs \<longrightarrow>
        count_list (trace (installPackageCommand name (Some c) evs)) Kill
          = length (filter success_occurrence evs)
      \<and> count_list (trace (installPackageCommand name (Some c) evs)) (Resolve c)
          = length (filter success_occurrence evs))"
  using run_settled [of name child evs evs'] run_settle [of name child evs]
    run_count [of evs name c]
  by simp

theorem promise_settles_once_witness:
  "promise (installPackageCommand ''pantry/foo'' (Some 7)
       [SpawnSettles, Deliver (Stdout (PStr ''installed: pantry/foo''))])
     \<noteq> Pending
   \<and> promise (installPackageCommand ''pantry/foo'' (Some 7)
        ([SpawnSettles, Deliver (Stdout (PStr ''installed: pantry/foo''))]
         @ [Deliver (Close (PObj (Some 1)))]))
     = Fulfilled 7
   \<and> count_list (trace (installPackageCommand ''pantry/foo'' (Some 7)
        [SpawnSettles, Deliver (Stdout (PStr ''installed: pantry/foo''))])) Kill = 1"
proof -
  have f: "promise (installPackageCommand ''pantry/foo'' (Some 7)
      [SpawnSettles, Deliver (Stdout (PStr ''installed: pantry/foo''))]) = Fulfilled 7"
    by (simp add: installPackageCommand_def spawned_run_def spawned_def handleLineOutput_def
        resolve_def kill_def)
  have np: "promise (installPackageCommand ''pantry/foo'' (Some 7)
      [SpawnSettles, Deliver (Stdout (PStr ''installed: pantry/foo''))]) \<noteq> Pending"
    by (simp add: f)
  have s: "SpawnSettles \<in> set [SpawnSettles, Deliver (Stdout (PStr ''installed: pantry/foo''))]"
    by simp
  note once = promise_settles_once [of "''pantry/foo''" "Some 7"
      "[SpawnSettles, Deliver (Stdout (PStr ''installed: pantry/foo''))]"
      "[Deliver (Close (PObj (Some 1)))]" 7]
  have a: "promise (installPackageCommand ''pantry/foo'' (Some 7)
      ([SpawnSettles, Deliver (Stdout (PStr ''installed: pantry/foo''))]
       @ [Deliver (Close (PObj (Some 1)))]))
      = promise (installPackageCommand ''pantry/foo'' (Some 7)
          [SpawnSettles, Deliver (Stdout (PStr ''installed: pantry/foo''))])"
    using once np by blast
  have b: "count_list (trace (installPackageCommand ''pantry/foo'' (Some 7)
      [SpawnSettles, Deliver (Stdout (PStr ''installed: pantry/foo''))])) Kill
      = length (filter success_occurrence
          [SpawnSettles, Deliver (Stdout (PStr ''installed: pantry/foo''))])"
    using once s by blast
  have c: "length (filter success_occurrence
      [SpawnSettles, Deliver (Stdout (PStr ''installed: pantry/foo''))]) = 1"
    by simp
  show ?thesis
    using np a [unfolded f] b [unfolded c] by blast
qed

text \<open>
  Two lines that each contain \<^verbatim>\<open>installed:\<close>: \<^verbatim>\<open>kill\<close> and \<^verbatim>\<open>resolve\<close> are called
  twice, whether the lines arrive after \<^verbatim>\<open>spawn()\<close> has settled or before.
\<close>

theorem resolution_once_counterexample:
  "trace (installPackageCommand ''pantry/foo'' (Some 7)
      [SpawnSettles, Deliver (Stdout (PStr ''installed: pantry/foo'')),
       Deliver (Stderr (PStr ''installed: pantry/foo''))])
     = [Spawn ''tea-install'' [''+pantry/foo'', ''true''], Kill, Resolve 7, Kill, Resolve 7]
   \<and> trace (installPackageCommand ''pantry/foo'' (Some 7)
      [Deliver (Stdout (PStr ''installed: pantry/foo'')),
       Deliver (Stderr (PStr ''installed: pantry/foo'')), SpawnSettles])
     = [Spawn ''tea-install'' [''+pantry/foo'', ''true''], Kill, Resolve 7, Kill, Resolve 7]"
  by (simp add: installPackageCommand_def spawned_run_def spawned_def handleLineOutput_def
      resolve_def kill_def)

subsection \<open>Two invocations followed through\<close>

text \<open>
  An \<^verbatim>\<open>error\<close> event whose text contains \<^verbatim>\<open>installed:\<close>: the promise is rejected
  by the first listener, and the handler entered by the second still kills and calls
  \<^verbatim>\<open>resolve\<close>. Then a line and an error that arrive before \<^verbatim>\<open>spawn()\<close> has
  settled: the rejection is immediate, the handlers run afterwards.
\<close>

lemma error_text_installed_example:
  "promise (installPackageCommand ''pantry/foo'' (Some 7)
       [SpawnSettles, Deliver (Error (PStr ''not installed: x''))])
     = Rejected (PStr ''not installed: x'')
   \<and> trace (installPackageCommand ''pantry/foo'' (Some 7)
       [SpawnSettles, Deliver (Error (PStr ''not installed: x''))])
     = [Spawn ''tea-install'' [''+pantry/foo'', ''true''], Reject (PStr ''not installed: x''),
        ConsoleLog ''command error!'' [PStr ''not installed: x''], Kill, Resolve 7]"
  by (simp add: installPackageCommand_def spawned_run_def spawned_def on_error_def or_empty_def
      handleLineOutput_def console_log_def reject_def resolve_def kill_def)

lemma early_events_example:
  "promise (installPackageCommand ''pantry/foo'' (Some 7)
       [Deliver (Stdout (PStr ''installed: pantry/foo'')), Deliver (Error (PStr ''boom'')),
        SpawnSettles])
     = Rejected (PStr ''boom'')
   \<and> trace (installPackageCommand ''pantry/foo'' (Some 7)
       [Deliver (Stdout (PStr ''installed: pantry/foo'')), Deliver (Error (PStr ''boom'')),
        SpawnSettles])
     = [Spawn ''tea-install'' [''+pantry/foo'', ''true''], Reject (PStr ''boom''),
        ConsoleLog ''command error!'' [PStr ''boom''], Kill, Resolve 7]"
  by (simp add: installPackageCommand_def spawned_run_def spawned_def or_empty_def
      handleLineOutput_def console_log_def reject_def resolve_def kill_def)

section \<open>Properties of the request helpers\<close>

subsection \<open>The headers of a GET request\<close>

lemma getHeaders_keys:
  "map fst (getHeaders hashSync unixMs path s) = [''Authorization'', ''tea-ts'', ''tea-uid'', ''tea-gui_id'']"
  by (simp add: getHeaders_def Let_def)

text \<open>
  C9, as the source has it. A GET request carries the single header
  \<^verbatim>\<open>Authorization: 'public '\<close> (with the trailing space) and none of \<^verbatim>\<open>tea-ts\<close>,
  \<^verbatim>\<open>tea-uid\<close>, \<^verbatim>\<open>tea-gui_id\<close> when there is no session, when the session has no
  \<^verbatim>\<open>device_id\<close> or an empty one, or when it has no user. Otherwise it carries the four
  signed headers of \<^verbatim>\<open>getHeaders\<close> for the path \<^verbatim>\<open>GET/<path>\<close>.
\<close>

theorem get_headers_choice:
  "(session = None
      \<or> (\<exists>s. session = Some s \<and> (device_id s = None \<or> device_id s = Some [] \<or> user s = None))
     \<longrightarrow> req_headers (get hashSync unixMs session path query) = [(''Authorization'', Some ''public '')]
         \<and> map fst (req_headers (get hashSync unixMs session path query)) = [''Authorization''])
   \<and> (\<forall>s. session = Some s \<and> device_id s \<noteq> None \<and> device_id s \<noteq> Some [] \<and> user s \<noteq> None
     \<longrightarrow> req_headers (get hashSync unixMs session path query)
           = getHeaders hashSync unixMs (''GET/'' @ path) s
         \<and> map fst (req_headers (get hashSync unixMs session path query))
           = [''Authorization'', ''tea-ts'', ''tea-uid'', ''tea-gui_id''])"
  by (auto simp: get_def str_truthy_def getHeaders_keys split: option.splits)

theorem get_headers_choice_witness:
  "req_headers (get example_hash 2500 None ''packages'' None) = [(''Authorization'', Some ''public '')]
   \<and> req_headers (get example_hash 2500
         (Some \<lparr>device_id = Some ''abc-def'', key = Some ''k'',
                user = Some \<lparr>developer_id = Some ''dev''\<rparr>\<rparr>) ''packages'' None)
      = [(''Authorization'', Some ''10$3kabcGET/packages''), (''tea-ts'', Some ''2500''),
         (''tea-uid'', Some ''dev''), (''tea-gui_id'', Some ''abc-def'')]"
  using get_headers_choice [of None example_hash 2500 "''packages''" None]
    get_headers_choice [of "Some \<lparr>device_id = Some ''abc-def'', key = Some ''k'',
        user = Some \<lparr>developer_id = Some ''dev''\<rparr>\<rparr>" example_hash 2500 "''packages''" None]
  by (simp add: getHeaders_def example_hash_def js_str_def digit_char_def)

text \<open>
  A session with a user and the \<^verbatim>\<open>device_id\<close> \<^verbatim>\<open>''\<close>: the test
  \<^verbatim>\<open>session?.device_id && session?.user\<close> is falsy, and the request is sent as public.
\<close>

theorem empty_device_id_counterexample:
  "req_headers (get example_hash 2500
       (Some \<lparr>device_id = Some [], key = Some ''k'', user = Some \<lparr>developer_id = Some ''dev''\<rparr>\<rparr>)
       ''packages'' None)
     = [(''Authorization'', Some ''public '')]
   \<and> req_headers (get example_hash 2500
       (Some \<lparr>device_id = Some [], key = Some ''k'', user = Some \<lparr>developer_id = Some ''dev''\<rparr>\<rparr>)
       ''packages'' None)
     \<noteq> getHeaders example_hash 2500 ''GET/packages''
         \<lparr>device_id = Some [], key = Some ''k'', user = Some \<lparr>developer_id = Some ''dev''\<rparr>\<rparr>"
  by (simp add: get_def str_truthy_def getHeaders_def)

subsection \<open>The catalog\<close>

lemma find_Some_member: "find P xs = Some x \<Longrightarrow> x \<in> set xs \<and> P x"
  by (induction xs) (auto split: if_splits)

text \<open>
  C10. \<^verbatim>\<open>getPackages\<close> returns one entry for each catalog package, in order. Every field
  of the remote package is kept as it is, and two are added: \<open>state\<close> is
  \<^verbatim>\<open>INSTALLED\<close> exactly when some installed package has the same \<open>full_name\<close> and
  \<^verbatim>\<open>AVAILABLE\<close> otherwise, and \<open>installed_version\<close> is the version of the first such
  installed package, the empty string when there is none.
\<close>

theorem getPackages_marks_installed:
  "length (getPackages packages installedPackages) = length packages
   \<and> (\<forall>i < length packages.
        package.truncate (getPackages packages installedPackages ! i) = packages ! i
      \<and> (state (getPackages packages installedPackages ! i) = INSTALLED
           \<longleftrightarrow> (\<exists>q \<in> set installedPackages. full_name q = full_name (packages ! i)))
      \<and> (state (getPackages packages installedPackages ! i) = AVAILABLE
           \<longleftrightarrow> \<not> (\<exists>q \<in> set installedPackages. full_name q = full_name (packages ! i)))
      \<and> installed_version (getPackages packages installedPackages ! i)
           = (case find (\<lambda>q. full_name q = full_name (packages ! i)) installedPackages of
                None \<Rightarrow> [] | Some q \<Rightarrow> version q))"
  by (auto simp: getPackages_def Let_def package.truncate_def find_None_iff
      split: option.splits dest: find_Some_member)

theorem getPackages_marks_installed_witness:
  "getPackages
     [\<lparr>full_name = ''gnu.org/wget'', version = ''1.21'', rest = ''homepage''\<rparr>,
      \<lparr>full_name = ''curl.se'', version = ''8.0'', rest = ''other''\<rparr>]
     [\<lparr>full_name = ''gnu.org/wget'', version = ''1.20'', rest = ()\<rparr>,
      \<lparr>full_name = ''gnu.org/wget'', version = ''1.19'', rest = ()\<rparr>]
   = [\<lparr>full_name = ''gnu.org/wget'', version = ''1.21'', rest = ''homepage'',
        state = INSTALLED, installed_version = ''1.20''\<rparr>,
      \<lparr>full_name = ''curl.se'', version = ''8.0'', rest = ''other'',
        state = AVAILABLE, installed_version = []\<rparr>]"
  using getPackages_marks_installed
    [of "[\<lparr>full_name = ''gnu.org/wget'', version = ''1.21'', rest = ''homepage''\<rparr>,
          \<lparr>full_name = ''curl.se'', version = ''8.0'', rest = ''other''\<rparr>]"
        "[\<lparr>full_name = ''gnu.org/wget'', version = ''1.20'', rest = ()\<rparr>,
          \<lparr>full_name = ''gnu.org/wget'', version = ''1.19'', rest = ()\<rparr>]"]
  by (simp add: getPackages_def)

subsection \<open>The Authorization value and the salt\<close>

lemma header_Authorization:
  "header ''Authorization'' (getHeaders hashSync unixMs path s)
     = Some (hashSync (concat [to_radix 16 ((unixMs + 500) div 1000), js_str (key s),
          js_str (map_option (takeWhile (\<lambda>c. c \<noteq> CHR ''-'')) (device_id s)), path]) 10)"
  by (simp add: header_def getHeaders_def Let_def)

lemma bcrypt_hashSync_salt:
  assumes "length salt = length salt'"
    and "bcrypt_hashSync digest salt s rounds = bcrypt_hashSync digest salt' s rounds"
  shows "salt = salt'"
  using assms by (simp add: bcrypt_hashSync_def)

text \<open>
  C4, as the source has it. The Authorization value is the bcrypt hash of a text made of
  the timestamp (in seconds, hexadecimal), the session key, the first part of the device id
  and the path, salted with the salt drawn at the call. Two runs with the same timestamp,
  key, device id and path give the same value when the same salt is drawn, and different
  values whenever the two salts (22 characters each) differ.
\<close>

theorem authorization_depends_on_salt:
  "(key s = key s' \<and> device_id s = device_id s' \<longrightarrow>
      header ''Authorization'' (getHeaders (bcrypt_hashSync digest salt) unixMs path s)
        = header ''Authorization'' (getHeaders (bcrypt_hashSync digest salt) unixMs path s'))
   \<and> (length salt = 22 \<and> length salt' = 22 \<and> salt \<noteq> salt' \<longrightarrow>
      header ''Authorization'' (getHeaders (bcrypt_hashSync digest salt) unixMs path s)
        \<noteq> header ''Authorization'' (getHeaders (bcrypt_hashSync digest salt') unixMs path s))"
proof -
  have inj: "salt = salt'"
    if "length salt = 22" "length salt' = 22"
      and "header ''Authorization'' (getHeaders (bcrypt_hashSync digest salt) unixMs path s)
        = header ''Authorization'' (getHeaders (bcrypt_hashSync digest salt') unixMs path s)"
  proof (rule bcrypt_hashSync_salt)
    show "length salt = length salt'" using that(1,2) by simp
    show "bcrypt_hashSync digest salt
        (concat [to_radix 16 ((unixMs + 500) div 1000), js_str (key s),
          js_str (map_option (takeWhile (\<lambda>c. c \<noteq> CHR ''-'')) (device_id s)), path]) 10
      = bcrypt_hashSync digest salt'
        (concat [to_radix 16 ((unixMs + 500) div 1000), js_str (key s),
          js_str (map_option (takeWhile (\<lambda>c. c \<noteq> CHR ''-'')) (device_id s)), path]) 10"
      using that(3) by (simp only: header_Authorization option.inject)
  qed
  have same: "key s = key s' \<and> device_id s = device_id s' \<longrightarrow>
      header ''Authorization'' (getHeaders (bcrypt_hashSync digest salt) unixMs path s)
        = header ''Authorization'' (getHeaders (bcrypt_hashSync digest salt) unixMs path s')"
    by (simp add: header_Authorization)
  have differ: "length salt = 22 \<and> length salt' = 22 \<and> salt \<noteq> salt' \<longrightarrow>
      header ''Authorization'' (getHeaders (bcrypt_hashSync digest salt) unixMs path s)
        \<noteq> header ''Authorization'' (getHeaders (bcrypt_hashSync digest salt') unixMs path s)"
    using inj by blast
  from same differ show ?thesis by (rule conjI)
qed

theorem authorization_depends_on_salt_witness:
  "length ''AAAAAAAAAAAAAAAAAAAAAA'' = 22 \<and> length ''BBBBBBBBBBBBBBBBBBBBBB'' = 22
   \<and> ''AAAAAAAAAAAAAAAAAAAAAA'' \<noteq> ''BBBBBBBBBBBBBBBBBBBBBB''
   \<and> header ''Authorization''
        (getHeaders (bcrypt_hashSync example_digest ''AAAAAAAAAAAAAAAAAAAAAA'') 2500 ''GET/packages''
          \<lparr>device_id = Some ''abc-def'', key = Some ''k'', user = Some \<lparr>developer_id = Some ''dev''\<rparr>\<rparr>)
      \<noteq> header ''Authorization''
        (getHeaders (bcrypt_hashSync example_digest ''BBBBBBBBBBBBBBBBBBBBBB'') 2500 ''GET/packages''
          \<lparr>device_id = Some ''abc-def'', key = Some ''k'', user = Some \<lparr>developer_id = Some ''dev''\<rparr>\<rparr>)
   \<and> header ''Authorization''
        (getHeaders (bcrypt_hashSync example_digest ''AAAAAAAAAAAAAAAAAAAAAA'') 2500 ''GET/packages''
          \<lparr>device_id = Some ''abc-def'', key = Some ''k'', user = Some \<lparr>developer_id = Some ''dev''\<rparr>\<rparr>)
      = header ''Authorization''
        (getHeaders (bcrypt_hashSync example_digest ''AAAAAAAAAAAAAAAAAAAAAA'') 2500 ''GET/packages''
          \<lparr>device_id = Some ''abc-def'', key = Some ''k'', user = None\<rparr>)"
proof -
  have l: "length ''AAAAAAAAAAAAAAAAAAAAAA'' = 22" "length ''BBBBBBBBBBBBBBBBBBBBBB'' = 22"
    by simp_all
  have d: "''AAAAAAAAAAAAAAAAAAAAAA'' \<noteq> ''BBBBBBBBBBBBBBBBBBBBBB''"
    by simp
  have k: "key \<lparr>device_id = Some ''abc-def'', key = Some ''k'', user = Some \<lparr>developer_id = Some ''dev''\<rparr>\<rparr>
        = key \<lparr>device_id = Some ''abc-def'', key = Some ''k'', user = None\<rparr>
      \<and> device_id \<lparr>device_id = Some ''abc-def'', key = Some ''k'', user = Some \<lparr>developer_id = Some ''dev''\<rparr>\<rparr>
        = device_id \<lparr>device_id = Some ''abc-def'', key = Some ''k'', user = None\<rparr>"
    by simp
  show ?thesis
    using authorization_depends_on_salt [of
        "\<lparr>device_id = Some ''abc-def'', key = Some ''k'', user = Some \<lparr>developer_id = Some ''dev''\<rparr>\<rparr>"
        "\<lparr>device_id = Some ''abc-def'', key = Some ''k'', user = None\<rparr>"
        example_digest "''AAAAAAAAAAAAAAAAAAAAAA''" 2500 "''GET/packages''"
        "''BBBBBBBBBBBBBBBBBBBBBB''"]
      l d k
    by blast
qed

text \<open>
  Two runs at the same time, for the same session and path, in which bcrypt draws two
  different salts: the Authorization values differ.
\<close>

theorem same_inputs_two_salts_counterexample:
  "header ''Authorization''
        (getHeaders (bcrypt_hashSync example_digest ''AAAAAAAAAAAAAAAAAAAAAA'') 2500 ''GET/packages''
          \<lparr>device_id = Some ''abc-def'', key = Some ''k'', user = Some \<lparr>developer_id = Some ''dev''\<rparr>\<rparr>)
      = Some ''$2a$10$AAAAAAAAAAAAAAAAAAAAAA3kabcGET/packages..............''
   \<and> header ''Authorization''
        (getHeaders (bcrypt_hashSync example_digest ''BBBBBBBBBBBBBBBBBBBBBB'') 2500 ''GET/packages''
          \<lparr>device_id = Some ''abc-def'', key = Some ''k'', user = Some \<lparr>developer_id = Some ''dev''\<rparr>\<rparr>)
      = Some ''$2a$10$BBBBBBBBBBBBBBBBBBBBBB3kabcGET/packages..............''
   \<and> header ''Authorization''
        (getHeaders (bcrypt_hashSync example_digest ''AAAAAAAAAAAAAAAAAAAAAA'') 2500 ''GET/packages''
          \<lparr>device_id = Some ''abc-def'', key = Some ''k'', user = Some \<lparr>developer_id = Some ''dev''\<rparr>\<rparr>)
      \<noteq> header ''Authorization''
        (getHeaders (bcrypt_hashSync example_digest ''BBBBBBBBBBBBBBBBBBBBBB'') 2500 ''GET/packages''
          \<lparr>device_id = Some ''abc-def'', key = Some ''k'', user = Some \<lparr>developer_id = Some ''dev''\<rparr>\<rparr>)"
  by (simp add: header_def getHeaders_def bcrypt_hashSync_def example_digest_def two_digits_def
      js_str_def digit_char_def)

end
